theory Spec2Isabelle
  imports Main "HOL-Library.Word"
begin

section \<open>Integers of the fixtures\<close>

text \<open>
  The fixture programs compute on C \<open>int\<close>. The values are 32-bit two's complement:
  \<open>+\<close> and \<open>-\<close> wrap around, and \<open>>\<close> compares the signed readings.
\<close>

type_synonym int32 = "32 word"

definition int_gt :: "int32 \<Rightarrow> int32 \<Rightarrow> bool" where
  "int_gt a b = (sint b < sint a)"

section \<open>Fixture 03: if statements\<close>

text \<open>
  \<open>tests_c/03_if_statement.c\<close>. Every variable of a function lives in one slot named
  after the function and the variable; the slots of the program are the fields of a record.
\<close>

record slots03 =
  main_x :: int32
  main_y :: int32
  main_z :: int32

text \<open>Lines 2 to 4: \<open>int x = 10; int y = 5; int z = 20;\<close>\<close>

definition main03_init :: "slots03 \<Rightarrow> slots03" where
  "main03_init s =
    (let s = s\<lparr>main_x := 10\<rparr>;
         s = s\<lparr>main_y := 5\<rparr>;
         s = s\<lparr>main_z := 20\<rparr>
     in s)"

text \<open>Lines 7 to 9, the first if block: \<open>if (x > y) { z = z - 10; }\<close>\<close>

definition main03_first_if :: "slots03 \<Rightarrow> slots03" where
  "main03_first_if s =
    (if int_gt (main_x s) (main_y s) then s\<lparr>main_z := main_z s - 10\<rparr> else s)"

text \<open>Lines 12 to 14, the second if block: \<open>if (y > x) { z = z - 1; }\<close>\<close>

definition main03_second_if :: "slots03 \<Rightarrow> slots03" where
  "main03_second_if s =
    (if int_gt (main_y s) (main_x s) then s\<lparr>main_z := main_z s - 1\<rparr> else s)"

definition main03 :: "slots03 \<Rightarrow> slots03" where
  "main03 s = main03_second_if (main03_first_if (main03_init s))"

section \<open>Fixture 04: function calls\<close>

text \<open>
  \<open>tests_c/04_functions.c\<close>. The parameter \<open>x\<close> of \<open>my_decrement\<close> is the shadow
  variable \<open>my_decrement_x\<close> of the fixture's comments: one slot of the program, written by
  every call.
\<close>

record slots04 =
  my_decrement_x :: int32
  main_initial_val :: int32
  main_final_result :: int32

text \<open>
  Lines 2 to 5. The argument is pushed into \<open>my_decrement_x\<close>, then \<open>x = x - 1;\<close> and
  \<open>return x;\<close>. The result is the returned value and the slots after the call.
\<close>

definition my_decrement :: "int32 \<Rightarrow> slots04 \<Rightarrow> int32 \<times> slots04" where
  "my_decrement arg s =
    (let s = s\<lparr>my_decrement_x := arg\<rparr>;
         s = s\<lparr>my_decrement_x := my_decrement_x s - 1\<rparr>
     in (my_decrement_x s, s))"

text \<open>
  Lines 8 to 12: \<open>int initial_val; int final_result;\<close> declare without an initializer
  and leave the slots as they are; then \<open>initial_val = 10; final_result = 0;\<close>
\<close>

definition main04_init :: "slots04 \<Rightarrow> slots04" where
  "main04_init s =
    (let s = s\<lparr>main_initial_val := 10\<rparr>;
         s = s\<lparr>main_final_result := 0\<rparr>
     in s)"

text \<open>Line 17, the call with a variable: \<open>final_result = my_decrement(initial_val);\<close>\<close>

definition main04_call_variable :: "slots04 \<Rightarrow> slots04" where
  "main04_call_variable s =
    (let (r, s) = my_decrement (main_initial_val s) s
     in s\<lparr>main_final_result := r\<rparr>)"

text \<open>Line 22, the call with a literal: \<open>final_result = my_decrement(5);\<close>\<close>

definition main04_call_literal :: "slots04 \<Rightarrow> slots04" where
  "main04_call_literal s =
    (let (r, s) = my_decrement 5 s
     in s\<lparr>main_final_result := r\<rparr>)"

text \<open>Line 27, the call whose value is discarded: \<open>my_decrement(final_result);\<close>\<close>

definition main04_call_discarded :: "slots04 \<Rightarrow> slots04" where
  "main04_call_discarded s =
    (let (r, s) = my_decrement (main_final_result s) s
     in s)"

definition main04 :: "slots04 \<Rightarrow> slots04" where
  "main04 s =
    main04_call_discarded (main04_call_literal (main04_call_variable (main04_init s)))"

section \<open>Fixture 05: a loop calling a function\<close>

text \<open>\<open>tests_c/05_comprehensive.c\<close>.\<close>

record slots05 =
  process_number_num :: int32
  process_number_threshold :: int32
  process_number_processed_val_in_func :: int32
  main_loop_counter :: int32
  main_upper_limit :: int32
  main_lower_limit :: int32
  main_returned_from_func :: int32

text \<open>
  Lines 2 to 11. \<open>int threshold = 2;\<close> writes its slot on every call;
  \<open>int processed_val_in_func;\<close> has no initializer and leaves its slot as the previous
  call left it, until line 5 overwrites it from the parameter.
\<close>

definition process_number :: "int32 \<Rightarrow> slots05 \<Rightarrow> int32 \<times> slots05" where
  "process_number arg s =
    (let s = s\<lparr>process_number_num := arg\<rparr>;
         s = s\<lparr>process_number_threshold := 2\<rparr>;
         s = s\<lparr>process_number_processed_val_in_func := process_number_num s\<rparr>;
         s = (if int_gt (process_number_processed_val_in_func s) (process_number_threshold s)
              then s\<lparr>process_number_processed_val_in_func :=
                       process_number_processed_val_in_func s - 1\<rparr>
              else s)
     in (process_number_processed_val_in_func s, s))"

text \<open>Lines 14 to 20: the declarations of \<open>main\<close> and its first two assignments.\<close>

definition main05_init :: "slots05 \<Rightarrow> slots05" where
  "main05_init s =
    (let s = s\<lparr>main_upper_limit := 5\<rparr>;
         s = s\<lparr>main_lower_limit := 1\<rparr>;
         s = s\<lparr>main_loop_counter := 10\<rparr>;
         s = s\<lparr>main_returned_from_func := 0\<rparr>
     in s)"

text \<open>Line 23: the condition of the loop, \<open>loop_counter > upper_limit\<close>.\<close>

definition main05_loop_cond :: "slots05 \<Rightarrow> bool" where
  "main05_loop_cond s = int_gt (main_loop_counter s) (main_upper_limit s)"

text \<open>Lines 24 and 25: the body of the loop.\<close>

definition main05_loop_body :: "slots05 \<Rightarrow> slots05" where
  "main05_loop_body s =
    (let (r, s) = process_number (main_loop_counter s) s;
         s = s\<lparr>main_returned_from_func := r\<rparr>;
         s = s\<lparr>main_loop_counter := main_returned_from_func s\<rparr>
     in s)"

text \<open>
  Lines 23 to 26. The loop does not end from every state (from \<open>loop_counter = 1\<close> and
  \<open>upper_limit = 0\<close> the counter stays 1), so the result is an option: \<open>None\<close> is a
  loop that never ends.
\<close>

partial_function (option) main05_while :: "slots05 \<Rightarrow> slots05 option" where
  "main05_while s =
    (if main05_loop_cond s then main05_while (main05_loop_body s) else Some s)"

text \<open>Lines 36 to 38: \<open>if (loop_counter > lower_limit) { ... }\<close>\<close>

definition main05_if :: "slots05 \<Rightarrow> slots05" where
  "main05_if s =
    (if int_gt (main_loop_counter s) (main_lower_limit s)
     then s\<lparr>main_returned_from_func := main_returned_from_func s - 1\<rparr>
     else s)"

definition main05 :: "slots05 \<Rightarrow> slots05 option" where
  "main05 s =
    (case main05_while (main05_init s) of
       None \<Rightarrow> None
     | Some s' \<Rightarrow> Some (main05_if s'))"

section \<open>The executing engine\<close>

text \<open>
  The engine that runs the fixtures (symbol table, expression evaluator, statement
  executor, function invoker, program driver) is not among the sources; the definitions of
  this section follow the specification's sections 3, 4 and 7.
\<close>

subsection \<open>Data model\<close>

text \<open>
  Modelled from the spec: the engine's abstract syntax is missing. Expression trees over
  literals, variable references and binary operators (\<open>+\<close>, \<open>-\<close>, \<open>>\<close>; division and
  modulo are named as unsupported).
\<close>

datatype binop = Add | Sub | Gt | Div | Mod

datatype expr = Lit int32 | Var string | BinOp binop expr expr

text \<open>
  Modelled from the spec: the evaluator's result type is missing. An expression yields one
  integer or one boolean.
\<close>

datatype val = IntV int32 | BoolV bool

text \<open>Modelled from the spec: the engine's error kinds (section 7) are missing.\<close>

datatype error =
  UnboundVariable | UnsupportedOperator | UnsupportedStatement | MissingReturn | ReentrantCall

text \<open>
  Modelled from the spec: the statement forms are missing. The value a declaration, an
  assignment or a return stores is a side-effect free expression or a call
  \<open>f(argument)\<close>; the expression evaluator itself never calls.
\<close>

datatype rhs = Pure expr | Call string expr

text \<open>
  Modelled from the spec: declaration (with or without initializer), assignment, if,
  while, return and the expression statement (a bare call).
\<close>

datatype stmt =
    Decl string "rhs option"
  | Assign string rhs
  | If expr "stmt list"
  | While expr "stmt list"
  | Return rhs
  | ExprStmt string expr

text \<open>
  Modelled from the spec: a function definition is a name, the ordered list of its formal
  parameters and a body; the return expression is carried by the \<open>Return\<close> statement of
  the body.
\<close>

record fundef =
  fname :: string
  params :: "string list"
  body :: "stmt list"

text \<open>
  Modelled from the spec: a program is a mapping from function names to definitions (a
  finite association list) and the entry function.
\<close>

record program =
  funcs :: "(string \<times> fundef) list"
  entry :: fundef

text \<open>
  Modelled from the spec: the outcome of a statement, \<open>continue\<close> or
  \<open>returned(value)\<close>.
\<close>

datatype outcome = Continue | Returned int32

subsection \<open>Symbol table\<close>

text \<open>
  Modelled from the spec: a slot is keyed by (function, declared name), written
  \<open>function.name\<close> in the specification, and holds one integer.
\<close>

type_synonym slot = "string \<times> string"

type_synonym symtab = "slot \<rightharpoonup> int32"

text \<open>
  Modelled from the spec: the mangled name of a variable is the qualifier of its function
  and its declared identifier.
\<close>

definition mangle :: "string \<Rightarrow> string \<Rightarrow> slot" where
  "mangle q x = (q, x)"

text \<open>Modelled from the spec: \<open>declare\<close> creates a zero-valued slot if absent.\<close>

definition declare_slot :: "slot \<Rightarrow> symtab \<Rightarrow> symtab" where
  "declare_slot k \<sigma> = (case \<sigma> k of None \<Rightarrow> \<sigma>(k \<mapsto> 0) | Some v \<Rightarrow> \<sigma>)"

text \<open>Modelled from the spec: \<open>read\<close> fails with \<open>UnboundVariable\<close> if never declared.\<close>

definition read_slot :: "slot \<Rightarrow> symtab \<Rightarrow> error + int32" where
  "read_slot k \<sigma> = (case \<sigma> k of None \<Rightarrow> Inl UnboundVariable | Some v \<Rightarrow> Inr v)"

text \<open>Modelled from the spec: \<open>write\<close> overwrites, and fails with \<open>UnboundVariable\<close> if absent.\<close>

definition write_slot :: "slot \<Rightarrow> int32 \<Rightarrow> symtab \<Rightarrow> error + symtab" where
  "write_slot k v \<sigma> = (case \<sigma> k of None \<Rightarrow> Inl UnboundVariable | Some u \<Rightarrow> Inr (\<sigma>(k \<mapsto> v)))"

subsection \<open>Expression evaluator\<close>

text \<open>
  Modelled from the spec: arithmetic yields an integer (32-bit wrap-around), comparison a
  boolean, division and modulo fail with \<open>UnsupportedOperator\<close>. The specification names
  no error for an operator applied to a boolean; the model reports \<open>UnsupportedOperator\<close>
  there as well.
\<close>

fun apply_binop :: "binop \<Rightarrow> val \<Rightarrow> val \<Rightarrow> error + val" where
  "apply_binop Add (IntV a) (IntV b) = Inr (IntV (a + b))"
| "apply_binop Sub (IntV a) (IntV b) = Inr (IntV (a - b))"
| "apply_binop Gt (IntV a) (IntV b) = Inr (BoolV (int_gt a b))"
| "apply_binop _ _ _ = Inl UnsupportedOperator"

text \<open>
  Modelled from the spec: a pure function of the symbol table; a variable is resolved to
  its slot with the qualifier of the enclosing function.
\<close>

fun eval :: "string \<Rightarrow> symtab \<Rightarrow> expr \<Rightarrow> error + val" where
  "eval q \<sigma> (Lit n) = Inr (IntV n)"
| "eval q \<sigma> (Var x) =
    (case read_slot (mangle q x) \<sigma> of Inl e \<Rightarrow> Inl e | Inr v \<Rightarrow> Inr (IntV v))"
| "eval q \<sigma> (BinOp bop a b) =
    (case eval q \<sigma> a of
       Inl e \<Rightarrow> Inl e
     | Inr va \<Rightarrow>
        (case eval q \<sigma> b of
           Inl e \<Rightarrow> Inl e
         | Inr vb \<Rightarrow> apply_binop bop va vb))"

text \<open>
  Modelled from the spec: a slot, an argument and a returned value hold an integer. The
  specification names no error for a boolean there; the model reports
  \<open>UnsupportedStatement\<close>.
\<close>

definition eval_int :: "string \<Rightarrow> symtab \<Rightarrow> expr \<Rightarrow> error + int32" where
  "eval_int q \<sigma> e =
    (case eval q \<sigma> e of
       Inl err \<Rightarrow> Inl err
     | Inr (IntV n) \<Rightarrow> Inr n
     | Inr (BoolV b) \<Rightarrow> Inl UnsupportedStatement)"

text \<open>
  Modelled from the spec: a condition must yield a boolean. The specification names no
  error for an integer there; the model reports \<open>UnsupportedStatement\<close>.
\<close>

definition eval_cond :: "string \<Rightarrow> symtab \<Rightarrow> expr \<Rightarrow> error + bool" where
  "eval_cond q \<sigma> e =
    (case eval q \<sigma> e of
       Inl err \<Rightarrow> Inl err
     | Inr (BoolV b) \<Rightarrow> Inr b
     | Inr (IntV n) \<Rightarrow> Inl UnsupportedStatement)"

subsection \<open>Statement executor and function invoker\<close>

text \<open>
  Modelled from the spec: an execution fails with an error, which is fatal and leaves no
  valid state (\<open>Some (Inl e)\<close>), or completes (\<open>Some (Inr r)\<close>). A loop may never
  end: the executor takes fuel, one unit for each loop iteration and each call, and the
  result is \<open>None\<close> when the fuel ran out.
\<close>

type_synonym 'a result = "(error + 'a) option"

text \<open>
  Modelled from the spec: the function invoker \<open>invoke\<close> (the contract
  \<open>call(functionName, argumentExpr)\<close>) and the statement executor. \<open>q\<close> is the qualifier
  of the function being executed and \<open>cs\<close> the functions that called it, so the call chain
  is \<open>q # cs\<close>. A call to a function on the chain is rejected with \<open>ReentrantCall\<close> before
  anything else happens. The argument is evaluated in the caller's qualifier and bound to
  the callee's parameter slot (declare if absent, then write); the body runs with the
  callee's qualifier; the value of the first \<open>Return\<close> reached is the result, and a body
  that ends without one fails with \<open>MissingReturn\<close>. The specification names no error for a
  call to a function the program does not define, nor for a callee whose parameter list is
  not one name; the model reports \<open>UnsupportedStatement\<close>.
\<close>

function (sequential) invoke :: "nat \<Rightarrow> program \<Rightarrow> string list \<Rightarrow> string \<Rightarrow> symtab \<Rightarrow> string \<Rightarrow> expr
      \<Rightarrow> (int32 \<times> symtab) result"
  and exec_rhs :: "nat \<Rightarrow> program \<Rightarrow> string list \<Rightarrow> string \<Rightarrow> symtab \<Rightarrow> rhs
      \<Rightarrow> (int32 \<times> symtab) result"
  and exec_stmt :: "nat \<Rightarrow> program \<Rightarrow> string list \<Rightarrow> string \<Rightarrow> symtab \<Rightarrow> stmt
      \<Rightarrow> (outcome \<times> symtab) result"
  and exec_block :: "nat \<Rightarrow> program \<Rightarrow> string list \<Rightarrow> string \<Rightarrow> symtab \<Rightarrow> stmt list
      \<Rightarrow> (outcome \<times> symtab) result"
where
  "invoke n p cs q \<sigma> f a =
    (if f \<in> set (q # cs) then Some (Inl ReentrantCall)
     else
      (case map_of (funcs p) f of
         None \<Rightarrow> Some (Inl UnsupportedStatement)
       | Some fd \<Rightarrow>
          (case params fd of
             [x] \<Rightarrow>
              (case eval_int q \<sigma> a of
                 Inl e \<Rightarrow> Some (Inl e)
               | Inr v \<Rightarrow>
                  (case write_slot (mangle f x) v (declare_slot (mangle f x) \<sigma>) of
                     Inl e \<Rightarrow> Some (Inl e)
                   | Inr \<sigma>1 \<Rightarrow>
                      (case n of
                         0 \<Rightarrow> None
                       | Suc m \<Rightarrow>
                          (case exec_block m p (q # cs) f \<sigma>1 (body fd) of
                             None \<Rightarrow> None
                           | Some (Inl e) \<Rightarrow> Some (Inl e)
                           | Some (Inr (Continue, \<sigma>2)) \<Rightarrow> Some (Inl MissingReturn)
                           | Some (Inr (Returned r, \<sigma>2)) \<Rightarrow> Some (Inr (r, \<sigma>2))))))
           | _ \<Rightarrow> Some (Inl UnsupportedStatement))))"
| "exec_rhs n p cs q \<sigma> (Pure e) =
    (case eval_int q \<sigma> e of
       Inl err \<Rightarrow> Some (Inl err)
     | Inr v \<Rightarrow> Some (Inr (v, \<sigma>)))"
| "exec_rhs n p cs q \<sigma> (Call f a) = invoke n p cs q \<sigma> f a"
| "exec_stmt n p cs q \<sigma> (Decl x None) =
    Some (Inr (Continue, declare_slot (mangle q x) \<sigma>))"
| "exec_stmt n p cs q \<sigma> (Decl x (Some r)) =
    (case exec_rhs n p cs q (declare_slot (mangle q x) \<sigma>) r of
       None \<Rightarrow> None
     | Some (Inl e) \<Rightarrow> Some (Inl e)
     | Some (Inr (v, \<sigma>1)) \<Rightarrow>
        (case write_slot (mangle q x) v \<sigma>1 of
           Inl e \<Rightarrow> Some (Inl e)
         | Inr \<sigma>2 \<Rightarrow> Some (Inr (Continue, \<sigma>2))))"
| "exec_stmt n p cs q \<sigma> (Assign x r) =
    (case exec_rhs n p cs q \<sigma> r of
       None \<Rightarrow> None
     | Some (Inl e) \<Rightarrow> Some (Inl e)
     | Some (Inr (v, \<sigma>1)) \<Rightarrow>
        (case write_slot (mangle q x) v \<sigma>1 of
           Inl e \<Rightarrow> Some (Inl e)
         | Inr \<sigma>2 \<Rightarrow> Some (Inr (Continue, \<sigma>2))))"
| "exec_stmt n p cs q \<sigma> (If c b) =
    (case eval_cond q \<sigma> c of
       Inl e \<Rightarrow> Some (Inl e)
     | Inr t \<Rightarrow> if t then exec_block n p cs q \<sigma> b else Some (Inr (Continue, \<sigma>)))"
| "exec_stmt n p cs q \<sigma> (While c b) =
    (case eval_cond q \<sigma> c of
       Inl e \<Rightarrow> Some (Inl e)
     | Inr t \<Rightarrow>
        if t then
          (case n of
             0 \<Rightarrow> None
           | Suc m \<Rightarrow>
              (case exec_block m p cs q \<sigma> b of
                 None \<Rightarrow> None
               | Some (Inl e) \<Rightarrow> Some (Inl e)
               | Some (Inr (Returned r, \<sigma>1)) \<Rightarrow> Some (Inr (Returned r, \<sigma>1))
               | Some (Inr (Continue, \<sigma>1)) \<Rightarrow> exec_stmt m p cs q \<sigma>1 (While c b)))
        else Some (Inr (Continue, \<sigma>)))"
| "exec_stmt n p cs q \<sigma> (Return r) =
    (case exec_rhs n p cs q \<sigma> r of
       None \<Rightarrow> None
     | Some (Inl e) \<Rightarrow> Some (Inl e)
     | Some (Inr (v, \<sigma>1)) \<Rightarrow> Some (Inr (Returned v, \<sigma>1)))"
| "exec_stmt n p cs q \<sigma> (ExprStmt f a) =
    (case invoke n p cs q \<sigma> f a of
       None \<Rightarrow> None
     | Some (Inl e) \<Rightarrow> Some (Inl e)
     | Some (Inr (v, \<sigma>1)) \<Rightarrow> Some (Inr (Continue, \<sigma>1)))"
| "exec_block n p cs q \<sigma> [] = Some (Inr (Continue, \<sigma>))"
| "exec_block n p cs q \<sigma> (s # ss) =
    (case exec_stmt n p cs q \<sigma> s of
       None \<Rightarrow> None
     | Some (Inl e) \<Rightarrow> Some (Inl e)
     | Some (Inr (Returned r, \<sigma>1)) \<Rightarrow> Some (Inr (Returned r, \<sigma>1))
     | Some (Inr (Continue, \<sigma>1)) \<Rightarrow> exec_block n p cs q \<sigma>1 ss)"
  by pat_completeness auto

text \<open>
  Each call and each loop iteration uses one unit of fuel; every other step goes to a
  smaller piece of syntax.
\<close>

termination
  apply (relation "inv_image (less_than <*lex*> less_than)
    (\<lambda>x. case x of
        Inl (Inl (n, p, cs, q, \<sigma>, f, a)) \<Rightarrow> (n, 0)
      | Inl (Inr (n, p, cs, q, \<sigma>, r)) \<Rightarrow> (n, 1)
      | Inr (Inl (n, p, cs, q, \<sigma>, s)) \<Rightarrow> (n, 2 + size s)
      | Inr (Inr (n, p, cs, q, \<sigma>, ss)) \<Rightarrow> (n, 2 + size_list size ss))")
  apply (rule wf_inv_image, rule wf_lex_prod, rule wf_less_than, rule wf_less_than)
  apply simp_all
  done

text \<open>
  The equations of \<open>invoke\<close> and of the loop are unfolded on demand only: the loop's
  equation mentions the loop again.
\<close>

declare invoke.simps [simp del]

declare exec_stmt.simps(5) [simp del]

lemmas exec_while = exec_stmt.simps(5)

subsection \<open>Program driver\<close>

text \<open>
  Modelled from the spec: no slot is declared before the entry function runs; its body is
  executed with its own qualifier and no caller; a return in it, or the end of its
  statements, ends the program, and the output is the symbol table.
\<close>

definition run :: "nat \<Rightarrow> program \<Rightarrow> symtab result" where
  "run n p =
    (case exec_block n p [] (fname (entry p)) Map.empty (body (entry p)) of
       None \<Rightarrow> None
     | Some (Inl e) \<Rightarrow> Some (Inl e)
     | Some (Inr (out, \<sigma>)) \<Rightarrow> Some (Inr \<sigma>))"

subsection \<open>The executions inside an execution\<close>

text \<open>
  The specification speaks of invocations that are still active and of errors that abort
  the whole execution (sections 5 and 7). To state this, a configuration names one
  execution of the engine above: of an invocation, of a stored value, of a statement or of
  a statement sequence, with its fuel \<open>n\<close>, the callers \<open>cs\<close>, the qualifier \<open>q\<close> and
  the symbol table it starts in.
\<close>

datatype config =
    Invoke nat "string list" string symtab string expr
  | Rhs nat "string list" string symtab rhs
  | Stmt nat "string list" string symtab stmt
  | Block nat "string list" string symtab "stmt list"

text \<open>The execution of a configuration fails with the error \<open>e\<close>.\<close>

fun fails :: "program \<Rightarrow> config \<Rightarrow> error \<Rightarrow> bool" where
  "fails p (Invoke n cs q \<sigma> f a) e = (invoke n p cs q \<sigma> f a = Some (Inl e))"
| "fails p (Rhs n cs q \<sigma> r) e = (exec_rhs n p cs q \<sigma> r = Some (Inl e))"
| "fails p (Stmt n cs q \<sigma> s) e = (exec_stmt n p cs q \<sigma> s = Some (Inl e))"
| "fails p (Block n cs q \<sigma> ss) e = (exec_block n p cs q \<sigma> ss = Some (Inl e))"

text \<open>
  \<open>starts p c c'\<close>: executing \<open>c\<close> executes \<open>c'\<close> as one of its parts. One rule for
  each place where the equations of \<open>invoke\<close>, \<open>exec_rhs\<close>, \<open>exec_stmt\<close> and
  \<open>exec_block\<close> execute a part, under the conditions that lead there.
\<close>

inductive starts :: "program \<Rightarrow> config \<Rightarrow> config \<Rightarrow> bool" for p :: program where
  invoke_body:
    "f \<notin> set (q # cs) \<Longrightarrow> map_of (funcs p) f = Some fd \<Longrightarrow> params fd = [x] \<Longrightarrow>
     eval_int q \<sigma> a = Inr v \<Longrightarrow>
     starts p (Invoke (Suc m) cs q \<sigma> f a) (Block m (q # cs) f (\<sigma>(mangle f x \<mapsto> v)) (body fd))"
| rhs_call: "starts p (Rhs n cs q \<sigma> (Call f a)) (Invoke n cs q \<sigma> f a)"
| decl_init:
    "starts p (Stmt n cs q \<sigma> (Decl x (Some r))) (Rhs n cs q (declare_slot (mangle q x) \<sigma>) r)"
| assign_value: "starts p (Stmt n cs q \<sigma> (Assign x r)) (Rhs n cs q \<sigma> r)"
| if_body:
    "eval_cond q \<sigma> c = Inr True \<Longrightarrow> starts p (Stmt n cs q \<sigma> (If c b)) (Block n cs q \<sigma> b)"
| while_body:
    "eval_cond q \<sigma> c = Inr True \<Longrightarrow>
     starts p (Stmt (Suc m) cs q \<sigma> (While c b)) (Block m cs q \<sigma> b)"
| while_again:
    "eval_cond q \<sigma> c = Inr True \<Longrightarrow> exec_block m p cs q \<sigma> b = Some (Inr (Continue, \<sigma>1)) \<Longrightarrow>
     starts p (Stmt (Suc m) cs q \<sigma> (While c b)) (Stmt m cs q \<sigma>1 (While c b))"
| return_value: "starts p (Stmt n cs q \<sigma> (Return r)) (Rhs n cs q \<sigma> r)"
| expr_stmt_call: "starts p (Stmt n cs q \<sigma> (ExprStmt f a)) (Invoke n cs q \<sigma> f a)"
| block_first: "starts p (Block n cs q \<sigma> (s # ss)) (Stmt n cs q \<sigma> s)"
| block_rest:
    "exec_stmt n p cs q \<sigma> s = Some (Inr (Continue, \<sigma>1)) \<Longrightarrow>
     starts p (Block n cs q \<sigma> (s # ss)) (Block n cs q \<sigma>1 ss)"

code_pred starts .

text \<open>The configuration of a whole run: the body of the entry function, no caller, no slot.\<close>

definition run_config :: "nat \<Rightarrow> program \<Rightarrow> config" where
  "run_config n p = Block n [] (fname (entry p)) Map.empty (body (entry p))"

subsection \<open>Programs without loops\<close>

text \<open>
  The programs of the determinism property (section 8 of the specification): a statement
  with no \<open>while\<close> in it, at any depth, and a program whose entry function and function
  table hold such statements only.
\<close>

fun while_free :: "stmt \<Rightarrow> bool" where
  "while_free (While c b) = False"
| "while_free (If c b) = list_all while_free b"
| "while_free s = True"

definition while_free_program :: "program \<Rightarrow> bool" where
  "while_free_program p =
    (list_all while_free (body (entry p)) \<and>
     list_all (\<lambda>(f, fd). list_all while_free (body fd)) (funcs p))"

section \<open>The fixtures as parsed programs\<close>

text \<open>
  The input of the engine is a parsed program. These are the three fixtures in the abstract
  syntax above, statement by statement.
\<close>

text \<open>\<open>tests_c/03_if_statement.c\<close>, lines 1 to 17.\<close>

definition fixture03_main :: fundef where
  "fixture03_main =
    \<lparr>fname = ''main'', params = [],
     body =
      [Decl ''x'' (Some (Pure (Lit 10))),
       Decl ''y'' (Some (Pure (Lit 5))),
       Decl ''z'' (Some (Pure (Lit 20))),
       If (BinOp Gt (Var ''x'') (Var ''y''))
         [Assign ''z'' (Pure (BinOp Sub (Var ''z'') (Lit 10)))],
       If (BinOp Gt (Var ''y'') (Var ''x''))
         [Assign ''z'' (Pure (BinOp Sub (Var ''z'') (Lit 1)))]]\<rparr>"

definition fixture03 :: program where
  "fixture03 = \<lparr>funcs = [(''main'', fixture03_main)], entry = fixture03_main\<rparr>"

text \<open>\<open>tests_c/04_functions.c\<close>, lines 2 to 5 and 7 to 28.\<close>

definition fixture04_my_decrement :: fundef where
  "fixture04_my_decrement =
    \<lparr>fname = ''my_decrement'', params = [''x''],
     body =
      [Assign ''x'' (Pure (BinOp Sub (Var ''x'') (Lit 1))),
       Return (Pure (Var ''x''))]\<rparr>"

definition fixture04_main :: fundef where
  "fixture04_main =
    \<lparr>fname = ''main'', params = [],
     body =
      [Decl ''initial_val'' None,
       Decl ''final_result'' None,
       Assign ''initial_val'' (Pure (Lit 10)),
       Assign ''final_result'' (Pure (Lit 0)),
       Assign ''final_result'' (Call ''my_decrement'' (Var ''initial_val'')),
       Assign ''final_result'' (Call ''my_decrement'' (Lit 5)),
       ExprStmt ''my_decrement'' (Var ''final_result'')]\<rparr>"

definition fixture04 :: program where
  "fixture04 =
    \<lparr>funcs = [(''my_decrement'', fixture04_my_decrement), (''main'', fixture04_main)],
     entry = fixture04_main\<rparr>"

text \<open>\<open>tests_c/05_comprehensive.c\<close>, lines 2 to 11 and 13 to 40.\<close>

definition fixture05_process_number :: fundef where
  "fixture05_process_number =
    \<lparr>fname = ''process_number'', params = [''num''],
     body =
      [Decl ''threshold'' (Some (Pure (Lit 2))),
       Decl ''processed_val_in_func'' None,
       Assign ''processed_val_in_func'' (Pure (Var ''num'')),
       If (BinOp Gt (Var ''processed_val_in_func'') (Var ''threshold''))
         [Assign ''processed_val_in_func''
            (Pure (BinOp Sub (Var ''processed_val_in_func'') (Lit 1)))],
       Return (Pure (Var ''processed_val_in_func''))]\<rparr>"

definition fixture05_main :: fundef where
  "fixture05_main =
    \<lparr>fname = ''main'', params = [],
     body =
      [Decl ''loop_counter'' None,
       Decl ''upper_limit'' (Some (Pure (Lit 5))),
       Decl ''lower_limit'' (Some (Pure (Lit 1))),
       Decl ''returned_from_func'' None,
       Assign ''loop_counter'' (Pure (Lit 10)),
       Assign ''returned_from_func'' (Pure (Lit 0)),
       While (BinOp Gt (Var ''loop_counter'') (Var ''upper_limit''))
         [Assign ''returned_from_func'' (Call ''process_number'' (Var ''loop_counter'')),
          Assign ''loop_counter'' (Pure (Var ''returned_from_func''))],
       If (BinOp Gt (Var ''loop_counter'') (Var ''lower_limit''))
         [Assign ''returned_from_func''
            (Pure (BinOp Sub (Var ''returned_from_func'') (Lit 1)))]]\<rparr>"

definition fixture05 :: program where
  "fixture05 =
    \<lparr>funcs = [(''process_number'', fixture05_process_number), (''main'', fixture05_main)],
     entry = fixture05_main\<rparr>"

text \<open>The slots of each fixture as a symbol table: one entry per field.\<close>

definition table03 :: "slots03 \<Rightarrow> symtab" where
  "table03 s =
    [mangle ''main'' ''x'' \<mapsto> main_x s,
     mangle ''main'' ''y'' \<mapsto> main_y s,
     mangle ''main'' ''z'' \<mapsto> main_z s]"

definition table04 :: "slots04 \<Rightarrow> symtab" where
  "table04 s =
    [mangle ''my_decrement'' ''x'' \<mapsto> my_decrement_x s,
     mangle ''main'' ''initial_val'' \<mapsto> main_initial_val s,
     mangle ''main'' ''final_result'' \<mapsto> main_final_result s]"

definition table05 :: "slots05 \<Rightarrow> symtab" where
  "table05 s =
    [mangle ''process_number'' ''num'' \<mapsto> process_number_num s,
     mangle ''process_number'' ''threshold'' \<mapsto> process_number_threshold s,
     mangle ''process_number'' ''processed_val_in_func'' \<mapsto>
       process_number_processed_val_in_func s,
     mangle ''main'' ''loop_counter'' \<mapsto> main_loop_counter s,
     mangle ''main'' ''upper_limit'' \<mapsto> main_upper_limit s,
     mangle ''main'' ''lower_limit'' \<mapsto> main_lower_limit s,
     mangle ''main'' ''returned_from_func'' \<mapsto> main_returned_from_func s]"

section \<open>The fixtures, executed\<close>

lemma my_decrement_eq: "my_decrement a t = (a - 1, t\<lparr>my_decrement_x := a - 1\<rparr>)"
  by (simp add: my_decrement_def)

lemma process_number_eq:
  "process_number n s =
    (if int_gt n 2 then n - 1 else n,
     s\<lparr>process_number_num := n, process_number_threshold := 2,
       process_number_processed_val_in_func := (if int_gt n 2 then n - 1 else n)\<rparr>)"
  by (simp add: process_number_def)

lemma main05_loop_body_eq:
  "main05_loop_body s =
    (let r = (if int_gt (main_loop_counter s) 2 then main_loop_counter s - 1
              else main_loop_counter s)
     in s\<lparr>process_number_num := main_loop_counter s, process_number_threshold := 2,
          process_number_processed_val_in_func := r, main_returned_from_func := r,
          main_loop_counter := r\<rparr>)"
  by (simp add: main05_loop_body_def process_number_eq Let_def)

text \<open>Above 2 the decrement does not wrap around.\<close>

lemma sint_pred: "2 < sint (n :: int32) \<Longrightarrow> sint (n - 1) = sint n - 1"
proof -
  assume h: "2 < sint n"
  have ub: "sint n < 2 ^ 31" using sint_lt [of n] by simp
  have "sint (n - 1) = signed_take_bit 31 (sint n - 1)"
    by (simp add: sint_word_ariths)
  also have "\<dots> = sint n - 1"
    using h ub by (intro signed_take_bit_int_eq_self) auto
  finally show ?thesis .
qed

text \<open>
  C2: in fixture 03 the first condition (\<open>10 > 5\<close>) holds and the second (\<open>5 > 10\<close>)
  does not. The first if block takes \<open>z\<close> from 20 to 10; the second if block leaves every
  slot as it was (its body \<open>z = z - 1\<close> is skipped); at the end of \<open>main\<close>,
  \<open>x = 10\<close>, \<open>y = 5\<close> and \<open>z = 10\<close>, whatever the slots held before.
\<close>

theorem fixture03_if_statements:
  "int_gt (main_x (main03_init s)) (main_y (main03_init s)) \<and>
   main03_first_if (main03_init s) = \<lparr>main_x = 10, main_y = 5, main_z = 10\<rparr> \<and>
   \<not> int_gt (main_y (main03_first_if (main03_init s)))
         (main_x (main03_first_if (main03_init s))) \<and>
   main03_second_if (main03_first_if (main03_init s)) = main03_first_if (main03_init s) \<and>
   main03 s = \<lparr>main_x = 10, main_y = 5, main_z = 10\<rparr>"
  by (simp add: main03_def main03_init_def main03_first_if_def main03_second_if_def int_gt_def)

text \<open>
  C1: in fixture 04 every call of \<open>my_decrement\<close>, whatever its argument and whatever the
  slots hold, writes the one slot \<open>my_decrement_x\<close> and returns the argument minus one.
  The call with \<open>initial_val = 10\<close> returns 9 into \<open>final_result\<close>; the call with 5
  returns 4 into \<open>final_result\<close>; the discarded call with \<open>final_result = 4\<close> leaves
  \<open>my_decrement_x = 3\<close> and \<open>final_result = 4\<close>, the state at the end of \<open>main\<close>.
\<close>

theorem fixture04_calls:
  "my_decrement a t = (a - 1, t\<lparr>my_decrement_x := a - 1\<rparr>) \<and>
   main04_init s = s\<lparr>main_initial_val := 10, main_final_result := 0\<rparr> \<and>
   main04_call_variable (main04_init s) =
     \<lparr>my_decrement_x = 9, main_initial_val = 10, main_final_result = 9\<rparr> \<and>
   main04_call_literal (main04_call_variable (main04_init s)) =
     \<lparr>my_decrement_x = 4, main_initial_val = 10, main_final_result = 4\<rparr> \<and>
   main04_call_discarded (main04_call_literal (main04_call_variable (main04_init s))) =
     \<lparr>my_decrement_x = 3, main_initial_val = 10, main_final_result = 4\<rparr> \<and>
   main04 s = \<lparr>my_decrement_x = 3, main_initial_val = 10, main_final_result = 4\<rparr>"
  by (simp add: main04_def main04_init_def main04_call_variable_def main04_call_literal_def
      main04_call_discarded_def my_decrement_eq)

text \<open>
  C10: for every argument \<open>n\<close> and every content \<open>s\<close> of the slots left by earlier calls,
  \<open>process_number(n)\<close> returns \<open>n - 1\<close> when \<open>n > 2\<close> and \<open>n\<close> otherwise (as signed
  integers, without wrap-around), so two calls with the same argument return the same value
  from any two states \<open>s\<close> and \<open>s'\<close>.
\<close>

theorem process_number_result:
  "fst (process_number n s) = (if int_gt n 2 then n - 1 else n) \<and>
   sint (fst (process_number n s)) = (if 2 < sint n then sint n - 1 else sint n) \<and>
   fst (process_number n s) = fst (process_number n s')"
  by (simp add: process_number_eq int_gt_def sint_pred)

text \<open>
  C3: the loop of fixture 05 ends. From the state after line 20 (\<open>loop_counter = 10\<close>,
  \<open>upper_limit = 5\<close>) the condition holds before each of the first five iterations, at
  \<open>loop_counter\<close> 10, 9, 8, 7 and 6; after the fifth iteration \<open>loop_counter = 5\<close> and
  the condition is false; the loop returns exactly the state after five iterations of its
  body, and started in that state it returns it unchanged (no further iteration).
\<close>

theorem fixture05_loop:
  "main_loop_counter (main05_init s) = 10 \<and> main05_loop_cond (main05_init s) \<and>
   main_loop_counter (main05_loop_body (main05_init s)) = 9 \<and>
   main05_loop_cond (main05_loop_body (main05_init s)) \<and>
   main_loop_counter ((main05_loop_body ^^ 2) (main05_init s)) = 8 \<and>
   main05_loop_cond ((main05_loop_body ^^ 2) (main05_init s)) \<and>
   main_loop_counter ((main05_loop_body ^^ 3) (main05_init s)) = 7 \<and>
   main05_loop_cond ((main05_loop_body ^^ 3) (main05_init s)) \<and>
   main_loop_counter ((main05_loop_body ^^ 4) (main05_init s)) = 6 \<and>
   main05_loop_cond ((main05_loop_body ^^ 4) (main05_init s)) \<and>
   main_loop_counter ((main05_loop_body ^^ 5) (main05_init s)) = 5 \<and>
   \<not> main05_loop_cond ((main05_loop_body ^^ 5) (main05_init s)) \<and>
   main05_while (main05_init s) = Some ((main05_loop_body ^^ 5) (main05_init s)) \<and>
   main05_while ((main05_loop_body ^^ 5) (main05_init s)) =
     Some ((main05_loop_body ^^ 5) (main05_init s))"
  by (simp add: eval_nat_numeral main05_while.simps main05_loop_cond_def main05_init_def
      main05_loop_body_eq int_gt_def)

text \<open>
  C4: fixture 05 runs to completion from any content of the slots. The loop leaves
  \<open>loop_counter = 5\<close> and \<open>returned_from_func = 5\<close>; the condition
  \<open>loop_counter > lower_limit\<close> (\<open>5 > 1\<close>) of line 36 holds there, and the if block
  takes \<open>returned_from_func\<close> to 4; the final state has \<open>loop_counter = 5\<close> and
  \<open>returned_from_func = 4\<close>.
\<close>

theorem fixture05_final_state:
  "main05_while (main05_init s) =
     Some \<lparr>process_number_num = 6, process_number_threshold = 2,
        process_number_processed_val_in_func = 5, main_loop_counter = 5,
        main_upper_limit = 5, main_lower_limit = 1, main_returned_from_func = 5\<rparr> \<and>
   int_gt (5 :: int32) 1 \<and>
   main05_if \<lparr>process_number_num = 6, process_number_threshold = 2,
        process_number_processed_val_in_func = 5, main_loop_counter = 5,
        main_upper_limit = 5, main_lower_limit = 1, main_returned_from_func = 5\<rparr> =
     \<lparr>process_number_num = 6, process_number_threshold = 2,
        process_number_processed_val_in_func = 5, main_loop_counter = 5,
        main_upper_limit = 5, main_lower_limit = 1, main_returned_from_func = 4\<rparr> \<and>
   main05 s =
     Some \<lparr>process_number_num = 6, process_number_threshold = 2,
        process_number_processed_val_in_func = 5, main_loop_counter = 5,
        main_upper_limit = 5, main_lower_limit = 1, main_returned_from_func = 4\<rparr>"
  by (simp add: main05_def main05_if_def main05_while.simps main05_loop_cond_def main05_init_def
      main05_loop_body_eq int_gt_def)

section \<open>Properties of the executing engine\<close>

subsection \<open>Symbol table and invocation\<close>

lemma bind_param: "write_slot k v (declare_slot k \<sigma>) = Inr (\<sigma>(k \<mapsto> v))"
  by (simp add: write_slot_def declare_slot_def split: option.splits)

lemma write_slot_Inr: "write_slot k v \<sigma> = Inr \<sigma>' \<Longrightarrow> \<sigma>' = \<sigma>(k \<mapsto> v)"
  by (simp add: write_slot_def split: option.splits)

lemma declare_slot_apply:
  "declare_slot k \<sigma> k' = (if k' = k \<and> \<sigma> k = None then Some 0 else \<sigma> k')"
  by (simp add: declare_slot_def split: option.splits)

lemma invoke_Suc:
  "f \<notin> set (q # cs) \<Longrightarrow> map_of (funcs p) f = Some fd \<Longrightarrow> params fd = [x] \<Longrightarrow>
   eval_int q \<sigma> a = Inr v \<Longrightarrow>
   invoke (Suc n) p cs q \<sigma> f a =
     (case exec_block n p (q # cs) f (\<sigma>(mangle f x \<mapsto> v)) (body fd) of
        None \<Rightarrow> None
      | Some (Inl e) \<Rightarrow> Some (Inl e)
      | Some (Inr (Continue, \<sigma>2)) \<Rightarrow> Some (Inl MissingReturn)
      | Some (Inr (Returned r, \<sigma>2)) \<Rightarrow> Some (Inr (r, \<sigma>2)))"
  by (simp add: invoke.simps bind_param)

lemma invoke_Inr:
  assumes "invoke n p cs q \<sigma> f a = Some (Inr (r, \<sigma>'))"
  obtains m fd x v where "n = Suc m" "f \<notin> set (q # cs)" "map_of (funcs p) f = Some fd"
    "params fd = [x]" "eval_int q \<sigma> a = Inr v"
    "exec_block m p (q # cs) f (\<sigma>(mangle f x \<mapsto> v)) (body fd) = Some (Inr (Returned r, \<sigma>'))"
  using assms
  by (auto simp: invoke.simps bind_param
      split: if_splits option.splits list.splits sum.splits nat.splits outcome.splits prod.splits)

text \<open>
  A completed call leaves every slot of the caller and of the functions further up the
  chain as it was; a completed statement leaves the slots of the callers as they were.
\<close>

lemma frame:
  "invoke n p cs q \<sigma> f a = Some (Inr (v1, \<sigma>1)) \<Longrightarrow> distinct (q # cs) \<Longrightarrow> g \<in> set (q # cs)
     \<Longrightarrow> \<sigma>1 (mangle g y) = \<sigma> (mangle g y)"
  "exec_rhs n p cs q \<sigma> rh = Some (Inr (v2, \<sigma>2)) \<Longrightarrow> distinct (q # cs) \<Longrightarrow> g \<in> set (q # cs)
     \<Longrightarrow> \<sigma>2 (mangle g y) = \<sigma> (mangle g y)"
  "exec_stmt n p cs q \<sigma> s = Some (Inr (o3, \<sigma>3)) \<Longrightarrow> distinct (q # cs) \<Longrightarrow> g \<in> set cs
     \<Longrightarrow> \<sigma>3 (mangle g y) = \<sigma> (mangle g y)"
  "exec_block n p cs q \<sigma> ss = Some (Inr (o4, \<sigma>4)) \<Longrightarrow> distinct (q # cs) \<Longrightarrow> g \<in> set cs
     \<Longrightarrow> \<sigma>4 (mangle g y) = \<sigma> (mangle g y)"
proof (induction n p cs q \<sigma> f a and n p cs q \<sigma> rh and n p cs q \<sigma> s and n p cs q \<sigma> ss
    arbitrary: v1 \<sigma>1 g and v2 \<sigma>2 g and o3 \<sigma>3 g and o4 \<sigma>4 g
    rule: invoke_exec_rhs_exec_stmt_exec_block.induct)
  case (1 n p cs q \<sigma> f a)
  from "1.prems"(1) obtain m fd x v where
    h: "n = Suc m" "f \<notin> set (q # cs)" "map_of (funcs p) f = Some fd"
    "params fd = [x]" "eval_int q \<sigma> a = Inr v"
    "exec_block m p (q # cs) f (\<sigma>(mangle f x \<mapsto> v)) (body fd) = Some (Inr (Returned v1, \<sigma>1))"
    by (rule invoke_Inr)
  have d: "distinct (f # q # cs)" using h(2) "1.prems"(2) by simp
  have "\<sigma>1 (mangle g y) = (\<sigma>(mangle f x \<mapsto> v)) (mangle g y)"
    using "1.IH" [OF h(2) h(3) _ _ h(5) bind_param h(1) h(6) d "1.prems"(3)] h(4) by simp
  moreover have "g \<noteq> f" using h(2) "1.prems"(3) by auto
  ultimately show ?case by (simp add: mangle_def)
next
  case (2 n p cs q \<sigma> e)
  then show ?case by (auto split: sum.splits)
next
  case (3 n p cs q \<sigma> f a)
  then show ?case by simp
next
  case (4 n p cs q \<sigma> x)
  then show ?case by (auto simp: declare_slot_apply mangle_def)
next
  case (5 n p cs q \<sigma> x r)
  from "5.prems"(1) obtain v \<sigma>' where
    r: "exec_rhs n p cs q (declare_slot (mangle q x) \<sigma>) r = Some (Inr (v, \<sigma>'))"
    and w: "\<sigma>3 = \<sigma>'(mangle q x \<mapsto> v)"
    by (auto dest!: write_slot_Inr split: option.splits sum.splits prod.splits)
  have gq: "g \<noteq> q" using "5.prems"(2,3) by auto
  have "\<sigma>' (mangle g y) = declare_slot (mangle q x) \<sigma> (mangle g y)"
    using "5.IH" [OF r "5.prems"(2)] "5.prems"(3) by simp
  with w gq show ?case by (simp add: declare_slot_apply mangle_def)
next
  case (6 n p cs q \<sigma> x r)
  then show ?case
    by (auto simp: mangle_def dest!: write_slot_Inr split: option.splits sum.splits prod.splits)
next
  case (7 n p cs q \<sigma> c b)
  then show ?case by (auto split: option.splits sum.splits prod.splits if_splits)
next
  case (8 n p cs q \<sigma> c b)
  from "8.prems"(1) "8.IH" "8.prems"(2,3) show ?case
    apply (subst (asm) exec_while)
    apply (auto split: sum.splits if_splits nat.splits option.splits outcome.splits)
    done
next
  case (9 n p cs q \<sigma> r)
  then show ?case by (auto split: option.splits sum.splits prod.splits)
next
  case (10 n p cs q \<sigma> f a)
  then show ?case by (auto split: option.splits sum.splits prod.splits)
next
  case (11 n p cs q \<sigma>)
  then show ?case by simp
next
  case (12 n p cs q \<sigma> s ss)
  then show ?case
    by (auto split: option.splits sum.splits outcome.splits prod.splits)
qed

subsection \<open>More fuel never changes a result\<close>

lemma fuel_mono:
  "invoke n p cs q \<sigma> f a = Some r1 \<Longrightarrow> invoke (n + k) p cs q \<sigma> f a = Some r1"
  "exec_rhs n p cs q \<sigma> rh = Some r2 \<Longrightarrow> exec_rhs (n + k) p cs q \<sigma> rh = Some r2"
  "exec_stmt n p cs q \<sigma> s = Some r3 \<Longrightarrow> exec_stmt (n + k) p cs q \<sigma> s = Some r3"
  "exec_block n p cs q \<sigma> ss = Some r4 \<Longrightarrow> exec_block (n + k) p cs q \<sigma> ss = Some r4"
proof (induction n p cs q \<sigma> f a and n p cs q \<sigma> rh and n p cs q \<sigma> s and n p cs q \<sigma> ss
    arbitrary: r1 k and r2 k and r3 k and r4 k
    rule: invoke_exec_rhs_exec_stmt_exec_block.induct)
  case (1 n p cs q \<sigma> f a)
  then show ?case
    by (auto simp: invoke.simps split: if_splits option.splits list.splits sum.splits nat.splits outcome.splits prod.splits)
next
  case (2 n p cs q \<sigma> e)
  then show ?case by simp
next
  case (3 n p cs q \<sigma> f a)
  then show ?case by simp
next
  case (4 n p cs q \<sigma> x)
  then show ?case by simp
next
  case (5 n p cs q \<sigma> x r)
  then show ?case by (auto split: option.splits sum.splits prod.splits)
next
  case (6 n p cs q \<sigma> x r)
  then show ?case by (auto split: option.splits sum.splits prod.splits)
next
  case (7 n p cs q \<sigma> c b)
  then show ?case by (auto split: option.splits sum.splits prod.splits if_splits)
next
  case (8 n p cs q \<sigma> c b)
  show ?case
  proof (cases "eval_cond q \<sigma> c")
    case (Inl e)
    with "8.prems" show ?thesis by (simp add: exec_while)
  next
    case (Inr t)
    show ?thesis
    proof (cases t)
      case False
      with Inr "8.prems" show ?thesis by (simp add: exec_while)
    next
      case True
      show ?thesis
      proof (cases n)
        case 0
        with Inr True "8.prems" show ?thesis by (simp add: exec_while)
      next
        case (Suc m)
        from "8.prems" Inr True Suc obtain rb where
          rb: "exec_block m p cs q \<sigma> b = Some rb"
          by (auto simp: exec_while split: option.splits)
        have rb': "exec_block (m + k) p cs q \<sigma> b = Some rb"
          using "8.IH"(1) [OF Inr True Suc rb] .
        show ?thesis
        proof (cases rb)
          case (Inl e)
          with "8.prems" Inr True Suc rb rb' show ?thesis by (auto simp: exec_while)
        next
          case (Inr ob)
          obtain out \<sigma>1 where ob: "ob = (out, \<sigma>1)" by (cases ob)
          show ?thesis
          proof (cases out)
            case (Returned v)
            with "8.prems" \<open>eval_cond q \<sigma> c = Inr t\<close> True Suc rb rb' Inr ob show ?thesis
              by (auto simp: exec_while)
          next
            case Continue
            from "8.prems" \<open>eval_cond q \<sigma> c = Inr t\<close> True Suc rb Inr ob Continue
            have w: "exec_stmt m p cs q \<sigma>1 (While c b) = Some r3"
              by (simp add: exec_while)
            have "exec_stmt (m + k) p cs q \<sigma>1 (While c b) = Some r3"
              using "8.IH"(2) [OF \<open>eval_cond q \<sigma> c = Inr t\<close> True Suc rb Inr ob [symmetric] Continue w] .
            with \<open>eval_cond q \<sigma> c = Inr t\<close> True Suc rb' Inr ob Continue show ?thesis
              by (simp add: exec_while)
          qed
        qed
      qed
    qed
  qed
next
  case (9 n p cs q \<sigma> r)
  then show ?case by (auto split: option.splits sum.splits prod.splits)
next
  case (10 n p cs q \<sigma> f a)
  then show ?case by (auto split: option.splits sum.splits prod.splits)
next
  case (11 n p cs q \<sigma>)
  then show ?case by simp
next
  case (12 n p cs q \<sigma> s ss)
  then show ?case
    by (auto split: option.splits sum.splits outcome.splits prod.splits)
qed

subsection \<open>Programs without loops always complete\<close>

text \<open>
  Without loops, fuel is used by calls only, and a chain of calls never holds a function
  twice: as many units of fuel as there are functions left to call are enough.
\<close>

lemma map_of_body_while_free:
  "list_all (\<lambda>(f, fd). list_all while_free (body fd)) fs \<Longrightarrow> map_of fs f = Some fd
    \<Longrightarrow> list_all while_free (body fd)"
  by (auto simp: list_all_iff dest!: map_of_SomeD)

lemma callable_less:
  assumes "f \<notin> set (q # cs)" "map_of fs f = Some fd" "card (fst ` set fs - set (q # cs)) \<le> n"
  obtains m where "n = Suc m" "card (fst ` set fs - set (f # q # cs)) \<le> m"
proof -
  let ?A = "fst ` set fs - set (q # cs)"
  have fin: "finite ?A" by simp
  have mem: "f \<in> ?A" using assms(1,2) by (auto dest!: map_of_SomeD intro: rev_image_eqI)
  have eq: "fst ` set fs - set (f # q # cs) = ?A - {f}" by auto
  have "card (?A - {f}) = card ?A - 1" using mem fin by (simp add: card_Diff_singleton)
  moreover have "0 < card ?A" using mem fin by (auto simp: card_gt_0_iff)
  ultimately have "Suc (card (fst ` set fs - set (f # q # cs))) \<le> n"
    using assms(3) eq by simp
  then obtain m where "n = Suc m" by (cases n) auto
  with \<open>Suc (card (fst ` set fs - set (f # q # cs))) \<le> n\<close> that show thesis by simp
qed

lemma while_free_total:
  "list_all (\<lambda>(f, fd). list_all while_free (body fd)) (funcs p) \<Longrightarrow>
   card (fst ` set (funcs p) - set (q # cs)) \<le> n \<Longrightarrow> invoke n p cs q \<sigma> f a \<noteq> None"
  "list_all (\<lambda>(f, fd). list_all while_free (body fd)) (funcs p) \<Longrightarrow>
   card (fst ` set (funcs p) - set (q # cs)) \<le> n \<Longrightarrow> exec_rhs n p cs q \<sigma> rh \<noteq> None"
  "list_all (\<lambda>(f, fd). list_all while_free (body fd)) (funcs p) \<Longrightarrow>
   card (fst ` set (funcs p) - set (q # cs)) \<le> n \<Longrightarrow> while_free s \<Longrightarrow>
   exec_stmt n p cs q \<sigma> s \<noteq> None"
  "list_all (\<lambda>(f, fd). list_all while_free (body fd)) (funcs p) \<Longrightarrow>
   card (fst ` set (funcs p) - set (q # cs)) \<le> n \<Longrightarrow> list_all while_free ss \<Longrightarrow>
   exec_block n p cs q \<sigma> ss \<noteq> None"
proof (induction n p cs q \<sigma> f a and n p cs q \<sigma> rh and n p cs q \<sigma> s and n p cs q \<sigma> ss
    rule: invoke_exec_rhs_exec_stmt_exec_block.induct)
  case (1 n p cs q \<sigma> f a)
  show ?case
  proof (cases "f \<in> set (q # cs)")
    case True
    then show ?thesis by (simp add: invoke.simps)
  next
    case nf: False
    show ?thesis
    proof (cases "map_of (funcs p) f")
      case None
      with nf show ?thesis by (simp add: invoke.simps)
    next
      case (Some fd)
      obtain m where m: "n = Suc m" "card (fst ` set (funcs p) - set (f # q # cs)) \<le> m"
        using callable_less [OF nf Some "1.prems"(2)] by blast
      have wf: "list_all while_free (body fd)"
        using map_of_body_while_free [OF "1.prems"(1) Some] .
      show ?thesis
      proof (cases "\<exists>x. params fd = [x]")
        case False
        with nf Some show ?thesis
          by (auto simp: invoke.simps split: list.splits)
      next
        case True
        then obtain x where x: "params fd = [x]" by blast
        show ?thesis
        proof (cases "eval_int q \<sigma> a")
          case (Inl e)
          with nf Some x show ?thesis by (simp add: invoke.simps)
        next
          case (Inr v)
          have "exec_block m p (q # cs) f (\<sigma>(mangle f x \<mapsto> v)) (body fd) \<noteq> None"
            using "1.IH" [OF nf Some x refl Inr bind_param m(1) "1.prems"(1) m(2) wf] .
          with nf Some x Inr m(1) show ?thesis
            by (auto simp: invoke_Suc split: option.splits sum.splits prod.splits outcome.splits)
        qed
      qed
    qed
  qed
next
  case (2 n p cs q \<sigma> e)
  then show ?case by (auto split: sum.splits)
next
  case (3 n p cs q \<sigma> f a)
  then show ?case by simp
next
  case (4 n p cs q \<sigma> x)
  then show ?case by simp
next
  case (5 n p cs q \<sigma> x r)
  then show ?case by (auto split: option.splits sum.splits prod.splits)
next
  case (6 n p cs q \<sigma> x r)
  then show ?case by (auto split: option.splits sum.splits prod.splits)
next
  case (7 n p cs q \<sigma> c b)
  then show ?case by (auto split: option.splits sum.splits prod.splits if_splits)
next
  case (8 n p cs q \<sigma> c b)
  then show ?case by simp
next
  case (9 n p cs q \<sigma> r)
  then show ?case by (auto split: option.splits sum.splits prod.splits)
next
  case (10 n p cs q \<sigma> f a)
  then show ?case by (auto split: option.splits sum.splits prod.splits)
next
  case (11 n p cs q \<sigma>)
  then show ?case by simp
next
  case (12 n p cs q \<sigma> s ss)
  then show ?case
    by (auto split: option.splits sum.splits outcome.splits prod.splits)
qed

section \<open>Runs of whole programs\<close>

subsection \<open>Sequences and whole runs\<close>

text \<open>
  A sequence stops at the first statement that fails or returns; otherwise the second part
  runs in the state the first part left.
\<close>

lemma exec_block_append:
  "exec_block n p cs q \<sigma> (ss1 @ ss2) =
    (case exec_block n p cs q \<sigma> ss1 of
       None \<Rightarrow> None
     | Some (Inl e) \<Rightarrow> Some (Inl e)
     | Some (Inr (Returned r, \<sigma>1)) \<Rightarrow> Some (Inr (Returned r, \<sigma>1))
     | Some (Inr (Continue, \<sigma>1)) \<Rightarrow> exec_block n p cs q \<sigma>1 ss2)"
  by (induction ss1 arbitrary: \<sigma>)
    (auto split: option.splits sum.splits prod.splits outcome.splits)

lemma run_fuel_mono: "run n p = Some r \<Longrightarrow> n \<le> m \<Longrightarrow> run m p = Some r"
proof -
  assume r: "run n p = Some r" and le: "n \<le> m"
  obtain k where m: "m = n + k" using le by (auto simp: le_iff_add)
  from r obtain rb where rb: "exec_block n p [] (fname (entry p)) Map.empty (body (entry p)) = Some rb"
    by (auto simp: run_def split: option.splits)
  have "exec_block (n + k) p [] (fname (entry p)) Map.empty (body (entry p)) = Some rb"
    using fuel_mono(4) [OF rb] .
  with r rb m show ?thesis by (simp add: run_def)
qed

lemma run_deterministic: "run n p = Some r \<Longrightarrow> run m p = Some r' \<Longrightarrow> r = r'"
proof -
  assume a: "run n p = Some r" and b: "run m p = Some r'"
  have "run (max n m) p = Some r" using run_fuel_mono [OF a] by simp
  moreover have "run (max n m) p = Some r'" using run_fuel_mono [OF b] by simp
  ultimately show ?thesis by simp
qed

text \<open>
  C6: a program with no \<open>while\<close> statement always completes, and every run of it with
  at least as much fuel as the program has functions gives the same result: the same final
  symbol table, or the same error. (A recursive call is rejected with \<open>ReentrantCall\<close>,
  so the statement needs no hypothesis on recursion.)
\<close>

theorem while_free_deterministic:
  assumes "while_free_program p" and "length (funcs p) \<le> n" and "length (funcs p) \<le> m"
  shows "run n p = run m p \<and> run n p \<noteq> None"
proof -
  let ?l = "length (funcs p)"
  have c: "card (fst ` set (funcs p) - set [fname (entry p)]) \<le> ?l"
  proof -
    have "card (fst ` set (funcs p) - set [fname (entry p)]) \<le> card (fst ` set (funcs p))"
      by (rule card_mono) auto
    also have "\<dots> \<le> card (set (funcs p))" by (rule card_image_le) simp
    also have "\<dots> \<le> ?l" by (rule card_length)
    finally show ?thesis .
  qed
  have "exec_block ?l p [] (fname (entry p)) Map.empty (body (entry p)) \<noteq> None"
    using while_free_total(4) [OF _ c] assms(1) by (simp add: while_free_program_def)
  then have "run ?l p \<noteq> None"
    by (auto simp: run_def split: option.splits sum.splits prod.splits)
  then obtain r where r: "run ?l p = Some r" by blast
  have "run n p = Some r" "run m p = Some r"
    using run_fuel_mono [OF r] assms(2,3) by auto
  then show ?thesis by simp
qed

theorem while_free_deterministic_witness:
  "while_free_program fixture04 \<and> length (funcs fixture04) \<le> 2 \<and> length (funcs fixture04) \<le> 3 \<and>
   run 2 fixture04 = run 3 fixture04 \<and> run 2 fixture04 \<noteq> None"
proof -
  have w: "while_free_program fixture04"
    by (simp add: while_free_program_def fixture04_def fixture04_main_def fixture04_my_decrement_def)
  have a: "length (funcs fixture04) \<le> 2" and b: "length (funcs fixture04) \<le> 3"
    by (simp_all add: fixture04_def)
  show ?thesis using while_free_deterministic [OF w a b] w a b by blast
qed

section \<open>The contracts of the engine\<close>

text \<open>The equations that evaluate the engine on a concrete program.\<close>

lemmas engine_eval =
  invoke.simps exec_while declare_slot_def write_slot_def read_slot_def eval_int_def
  eval_cond_def mangle_def int_gt_def

lemma declare_then_update: "(declare_slot k \<sigma>)(k \<mapsto> w) = \<sigma>(k \<mapsto> w)"
  by (simp add: declare_slot_def split: option.splits)

text \<open>
  C8: the symbol table. On a table without the slot \<open>k\<close> (any table with \<open>k\<close>
  removed), \<open>declare\<close> creates it with value 0, \<open>read\<close> and \<open>write\<close> fail with
  \<open>UnboundVariable\<close>, and so do a variable reference and an assignment. On a table
  where \<open>k\<close> holds \<open>v\<close>, \<open>declare\<close> changes nothing (and declaring twice is
  declaring once), \<open>read\<close> returns \<open>v\<close>, \<open>write\<close> stores the new value. A bare
  declaration of a slot that exists is a no-op; a declaration with an initializer writes
  the initializer's value whether or not the slot existed.
\<close>

theorem symbol_table_contract:
  "declare_slot k (\<sigma>(k := None)) = \<sigma>(k \<mapsto> 0) \<and>
   declare_slot k (\<sigma>(k \<mapsto> v)) = \<sigma>(k \<mapsto> v) \<and>
   declare_slot k (declare_slot k \<sigma>) = declare_slot k \<sigma> \<and>
   read_slot k (\<sigma>(k \<mapsto> v)) = Inr v \<and>
   read_slot k (\<sigma>(k := None)) = Inl UnboundVariable \<and>
   read_slot k (declare_slot k (\<sigma>(k := None))) = Inr 0 \<and>
   write_slot k w (\<sigma>(k \<mapsto> v)) = Inr (\<sigma>(k \<mapsto> w)) \<and>
   write_slot k w (\<sigma>(k := None)) = Inl UnboundVariable \<and>
   eval q (\<sigma>(mangle q x := None)) (Var x) = Inl UnboundVariable \<and>
   exec_stmt n p cs q (\<sigma>(mangle q x := None)) (Assign x (Pure (Lit w))) =
     Some (Inl UnboundVariable) \<and>
   exec_stmt n p cs q (\<sigma>(mangle q x \<mapsto> v)) (Decl x None) =
     Some (Inr (Continue, \<sigma>(mangle q x \<mapsto> v))) \<and>
   exec_stmt n p cs q (\<sigma>(mangle q x \<mapsto> v)) (Decl x (Some (Pure (Lit w)))) =
     Some (Inr (Continue, \<sigma>(mangle q x \<mapsto> w))) \<and>
   exec_stmt n p cs q \<sigma> (Decl x (Some (Pure e))) =
     (case eval_int q (declare_slot (mangle q x) \<sigma>) e of
        Inl err \<Rightarrow> Some (Inl err)
      | Inr u \<Rightarrow> Some (Inr (Continue, \<sigma>(mangle q x \<mapsto> u))))"
  by (simp add: declare_slot_def read_slot_def write_slot_def eval_int_def
      split: option.splits sum.splits)

text \<open>
  C5: whenever the assignment \<open>x = f(a);\<close> completes, the bare call \<open>f(a);\<close> from the
  same state completes as well, and the two final tables agree on every slot of \<open>f\<close>;
  they differ at most in the assigned slot of the caller. In fixture 04 (the instance
  below) the discarded call \<open>my_decrement(final_result)\<close> sets \<open>my_decrement.x\<close> to 3
  and leaves \<open>main.final_result\<close> at 4.
\<close>

theorem discarded_call_keeps_callee_slots:
  assumes "exec_stmt n p cs q \<sigma> (Assign x (Call f a)) = Some (Inr (o2, \<sigma>2))"
  shows "\<exists>\<sigma>1. exec_stmt n p cs q \<sigma> (ExprStmt f a) = Some (Inr (Continue, \<sigma>1)) \<and>
          (\<forall>y. \<sigma>1 (mangle f y) = \<sigma>2 (mangle f y)) \<and>
          (\<exists>v. \<sigma>2 = \<sigma>1(mangle q x \<mapsto> v))"
proof -
  from assms obtain v \<sigma>1 where
    i: "invoke n p cs q \<sigma> f a = Some (Inr (v, \<sigma>1))" and
    w: "\<sigma>2 = \<sigma>1(mangle q x \<mapsto> v)"
    by (auto dest!: write_slot_Inr split: option.splits sum.splits prod.splits)
  have "f \<noteq> q" using i by (auto elim: invoke_Inr)
  with i w show ?thesis by (auto simp: mangle_def)
qed

theorem discarded_call_keeps_callee_slots_witness:
  "exec_stmt 1 fixture04 [] ''main''
     [mangle ''main'' ''initial_val'' \<mapsto> 10, mangle ''main'' ''final_result'' \<mapsto> 4,
      mangle ''my_decrement'' ''x'' \<mapsto> 4]
     (Assign ''final_result'' (Call ''my_decrement'' (Var ''final_result''))) =
   Some (Inr (Continue,
     [mangle ''main'' ''initial_val'' \<mapsto> 10, mangle ''main'' ''final_result'' \<mapsto> 3,
      mangle ''my_decrement'' ''x'' \<mapsto> 3])) \<and>
   exec_stmt 1 fixture04 [] ''main''
     [mangle ''main'' ''initial_val'' \<mapsto> 10, mangle ''main'' ''final_result'' \<mapsto> 4,
      mangle ''my_decrement'' ''x'' \<mapsto> 4]
     (ExprStmt ''my_decrement'' (Var ''final_result'')) =
   Some (Inr (Continue,
     [mangle ''main'' ''initial_val'' \<mapsto> 10, mangle ''main'' ''final_result'' \<mapsto> 4,
      mangle ''my_decrement'' ''x'' \<mapsto> 3])) \<and>
   (\<exists>\<sigma>1. exec_stmt 1 fixture04 [] ''main''
     [mangle ''main'' ''initial_val'' \<mapsto> 10, mangle ''main'' ''final_result'' \<mapsto> 4,
      mangle ''my_decrement'' ''x'' \<mapsto> 4]
     (ExprStmt ''my_decrement'' (Var ''final_result'')) = Some (Inr (Continue, \<sigma>1)) \<and>
     (\<forall>y. \<sigma>1 (mangle ''my_decrement'' y) =
       [mangle ''main'' ''initial_val'' \<mapsto> 10, mangle ''main'' ''final_result'' \<mapsto> 3,
        mangle ''my_decrement'' ''x'' \<mapsto> 3] (mangle ''my_decrement'' y)))"
proof -
  let ?\<sigma> = "[mangle ''main'' ''initial_val'' \<mapsto> 10, mangle ''main'' ''final_result'' \<mapsto> (4::int32),
      mangle ''my_decrement'' ''x'' \<mapsto> 4]"
  let ?\<sigma>2 = "[mangle ''main'' ''initial_val'' \<mapsto> 10, mangle ''main'' ''final_result'' \<mapsto> (3::int32),
      mangle ''my_decrement'' ''x'' \<mapsto> 3]"
  have a: "exec_stmt 1 fixture04 [] ''main'' ?\<sigma>
     (Assign ''final_result'' (Call ''my_decrement'' (Var ''final_result''))) =
     Some (Inr (Continue, ?\<sigma>2))"
    by (simp add: engine_eval fixture04_def fixture04_my_decrement_def fun_upd_twist)
  have b: "exec_stmt 1 fixture04 [] ''main'' ?\<sigma>
     (ExprStmt ''my_decrement'' (Var ''final_result'')) =
     Some (Inr (Continue, [mangle ''main'' ''initial_val'' \<mapsto> 10, mangle ''main'' ''final_result'' \<mapsto> 4,
      mangle ''my_decrement'' ''x'' \<mapsto> 3]))"
    by (simp add: engine_eval fixture04_def fixture04_my_decrement_def)
  from discarded_call_keeps_callee_slots [OF a] a b show ?thesis by blast
qed

subsection \<open>Reentrant calls\<close>

lemma invoke_reentrant: "f \<in> set (q # cs) \<Longrightarrow> invoke n p cs q \<sigma> f a = Some (Inl ReentrantCall)"
  by (simp add: invoke.simps)

lemma invoke_completes_not_active:
  "invoke n p cs q \<sigma> f a = Some (Inr r) \<Longrightarrow> f \<notin> set (q # cs)"
  by (cases r) (auto elim: invoke_Inr)

text \<open>A failure of a part is the failure of the execution that started it.\<close>

lemma failure_reaches_starter:
  assumes "starts p c c'" and "fails p c' e"
  shows "fails p c e"
  using assms
proof (cases rule: starts.cases)
  case (invoke_body f q cs fd x \<sigma> a v m)
  with assms(2) show ?thesis by (simp add: invoke_Suc)
next
  case (while_body q \<sigma> cnd cs m b)
  with assms(2) show ?thesis by (simp add: exec_while)
next
  case (while_again q \<sigma> cnd m cs b \<sigma>1)
  with assms(2) show ?thesis by (simp add: exec_while [of "Suc m"])
qed auto

lemma failure_reaches_root:
  assumes "(starts p)\<^sup>*\<^sup>* c c'" and "fails p c' e"
  shows "fails p c e"
  using assms by (induction rule: rtranclp_induct) (auto intro: failure_reaches_starter)

text \<open>
  C7: an invocation of a function that is on the call chain (\<open>f \<in> set (q # cs)\<close>: the
  function being executed or one of its callers) fails with \<open>ReentrantCall\<close>, whatever
  the fuel, the table, the argument and the program. It starts no execution at all: the
  argument is not evaluated, no slot is written, the body does not run. Every execution
  that reached this invocation, through any nesting of sequences, if and while bodies and
  calls, fails with \<open>ReentrantCall\<close> too, and so does the run of the whole program.
\<close>

theorem reentrant_call_rejected:
  assumes "f \<in> set (q # cs)"
  shows "invoke n p cs q \<sigma> f a = Some (Inl ReentrantCall) \<and>
    (\<forall>c'. \<not> starts p (Invoke n cs q \<sigma> f a) c') \<and>
    (\<forall>c. (starts p)\<^sup>*\<^sup>* c (Invoke n cs q \<sigma> f a) \<longrightarrow> fails p c ReentrantCall) \<and>
    (\<forall>m. (starts p)\<^sup>*\<^sup>* (run_config m p) (Invoke n cs q \<sigma> f a) \<longrightarrow>
       run m p = Some (Inl ReentrantCall))"
proof -
  have i: "fails p (Invoke n cs q \<sigma> f a) ReentrantCall"
    using assms by (simp add: invoke.simps)
  have none: "\<not> starts p (Invoke n cs q \<sigma> f a) c'" for c'
    using assms by (auto elim: starts.cases)
  have up: "fails p c ReentrantCall" if "(starts p)\<^sup>*\<^sup>* c (Invoke n cs q \<sigma> f a)" for c
    using failure_reaches_root [OF that i] .
  have top: "run m p = Some (Inl ReentrantCall)"
    if "(starts p)\<^sup>*\<^sup>* (run_config m p) (Invoke n cs q \<sigma> f a)" for m
    using up [OF that] by (simp add: run_config_def run_def)
  show ?thesis
    apply (intro conjI allI impI)
       apply (use i in simp)
      apply (rule none)
     apply (erule up)
    apply (erule top)
    done
qed

theorem reentrant_call_rejected_witness:
  "''f'' \<in> set (''f'' # [''main'']) \<and>
   (starts
      \<lparr>funcs = [(''f'', \<lparr>fname = ''f'', params = [''x''],
                       body = [Return (Call ''f'' (Var ''x''))]\<rparr>)],
       entry = \<lparr>fname = ''main'', params = [], body = [ExprStmt ''f'' (Lit 1)]\<rparr>\<rparr>)\<^sup>*\<^sup>*
     (run_config 1
        \<lparr>funcs = [(''f'', \<lparr>fname = ''f'', params = [''x''],
                         body = [Return (Call ''f'' (Var ''x''))]\<rparr>)],
         entry = \<lparr>fname = ''main'', params = [], body = [ExprStmt ''f'' (Lit 1)]\<rparr>\<rparr>)
     (Invoke 0 [''main''] ''f'' [mangle ''f'' ''x'' \<mapsto> 1] ''f'' (Var ''x'')) \<and>
   run 1
     \<lparr>funcs = [(''f'', \<lparr>fname = ''f'', params = [''x''],
                      body = [Return (Call ''f'' (Var ''x''))]\<rparr>)],
      entry = \<lparr>fname = ''main'', params = [], body = [ExprStmt ''f'' (Lit 1)]\<rparr>\<rparr> =
   Some (Inl ReentrantCall)"
proof -
  let ?fd = "\<lparr>fname = ''f'', params = [''x''], body = [Return (Call ''f'' (Var ''x''))]\<rparr>"
  let ?P = "\<lparr>funcs = [(''f'', ?fd)],
       entry = \<lparr>fname = ''main'', params = [], body = [ExprStmt ''f'' (Lit 1)]\<rparr>\<rparr>"
  let ?\<sigma> = "[mangle ''f'' ''x'' \<mapsto> (1::int32)]"
  have act: "''f'' \<in> set (''f'' # [''main''])" by simp
  have 1: "starts ?P (run_config 1 ?P) (Stmt 1 [] ''main'' Map.empty (ExprStmt ''f'' (Lit 1)))"
    by (simp add: run_config_def block_first)
  have 2: "starts ?P (Stmt 1 [] ''main'' Map.empty (ExprStmt ''f'' (Lit 1)))
      (Invoke 1 [] ''main'' Map.empty ''f'' (Lit 1))"
    by (rule expr_stmt_call)
  have 3: "starts ?P (Invoke (Suc 0) [] ''main'' Map.empty ''f'' (Lit 1))
      (Block 0 [''main''] ''f'' (Map.empty(mangle ''f'' ''x'' \<mapsto> 1)) (body ?fd))"
    by (rule invoke_body) (simp_all add: eval_int_def)
  have 4: "starts ?P (Block 0 [''main''] ''f'' ?\<sigma> [Return (Call ''f'' (Var ''x''))])
      (Stmt 0 [''main''] ''f'' ?\<sigma> (Return (Call ''f'' (Var ''x''))))"
    by (rule block_first)
  have 5: "starts ?P (Stmt 0 [''main''] ''f'' ?\<sigma> (Return (Call ''f'' (Var ''x''))))
      (Rhs 0 [''main''] ''f'' ?\<sigma> (Call ''f'' (Var ''x'')))"
    by (rule return_value)
  have 6: "starts ?P (Rhs 0 [''main''] ''f'' ?\<sigma> (Call ''f'' (Var ''x'')))
      (Invoke 0 [''main''] ''f'' ?\<sigma> ''f'' (Var ''x''))"
    by (rule rhs_call)
  have reach: "(starts ?P)\<^sup>*\<^sup>* (run_config 1 ?P) (Invoke 0 [''main''] ''f'' ?\<sigma> ''f'' (Var ''x''))"
    using 1 2 3 4 5 6 by (simp add: rtranclp.intros)
  from reentrant_call_rejected [OF act, of 0 ?P ?\<sigma> "Var ''x''"] reach
  have "run 1 ?P = Some (Inl ReentrantCall)" by blast
  with act reach show ?thesis by blast
qed

subsection \<open>Calls\<close>

text \<open>
  C9: a call \<open>f(a)\<close> of a defined one-parameter function that is not on the chain,
  whose argument evaluates to \<open>v\<close> in the caller's qualifier \<open>q\<close> and the table
  \<open>\<sigma>\<close> before the call. The body runs, with the callee's qualifier, from \<open>\<sigma>\<close> with
  the parameter slot set to \<open>v\<close>, and the call's result is the body's: the value of the
  first return reached, the statements after it never running, or \<open>MissingReturn\<close> when
  the body ends without a return. The argument's value is passed, not its variable: after a
  completed call every slot of the caller and of its callers holds what it held before.
\<close>

theorem call_contract:
  assumes "f \<notin> set (q # cs)" and "map_of (funcs p) f = Some fd" and "params fd = [x]"
    and "eval_int q \<sigma> a = Inr v"
  shows "invoke (Suc n) p cs q \<sigma> f a =
      (case exec_block n p (q # cs) f (\<sigma>(mangle f x \<mapsto> v)) (body fd) of
         None \<Rightarrow> None
       | Some (Inl e) \<Rightarrow> Some (Inl e)
       | Some (Inr (Continue, \<sigma>')) \<Rightarrow> Some (Inl MissingReturn)
       | Some (Inr (Returned r, \<sigma>')) \<Rightarrow> Some (Inr (r, \<sigma>'))) \<and>
    (\<forall>pre post r \<sigma>'.
       body fd = pre @ post \<and>
       exec_block n p (q # cs) f (\<sigma>(mangle f x \<mapsto> v)) pre = Some (Inr (Returned r, \<sigma>')) \<longrightarrow>
       invoke (Suc n) p cs q \<sigma> f a = Some (Inr (r, \<sigma>'))) \<and>
    (\<forall>pre rr post \<sigma>1 r \<sigma>'.
       body fd = pre @ Return rr # post \<and>
       exec_block n p (q # cs) f (\<sigma>(mangle f x \<mapsto> v)) pre = Some (Inr (Continue, \<sigma>1)) \<and>
       exec_rhs n p (q # cs) f \<sigma>1 rr = Some (Inr (r, \<sigma>')) \<longrightarrow>
       invoke (Suc n) p cs q \<sigma> f a = Some (Inr (r, \<sigma>'))) \<and>
    (\<forall>\<sigma>'.
       exec_block n p (q # cs) f (\<sigma>(mangle f x \<mapsto> v)) (body fd) = Some (Inr (Continue, \<sigma>')) \<longrightarrow>
       invoke (Suc n) p cs q \<sigma> f a = Some (Inl MissingReturn)) \<and>
    (\<forall>r \<sigma>' g y.
       distinct (q # cs) \<and> invoke (Suc n) p cs q \<sigma> f a = Some (Inr (r, \<sigma>')) \<and> g \<in> set (q # cs) \<longrightarrow>
       \<sigma>' (mangle g y) = \<sigma> (mangle g y))"
proof -
  note eq = invoke_Suc [OF assms, of n]
  have 1: "invoke (Suc n) p cs q \<sigma> f a = Some (Inr (r, \<sigma>'))"
    if "body fd = pre @ post"
      "exec_block n p (q # cs) f (\<sigma>(mangle f x \<mapsto> v)) pre = Some (Inr (Returned r, \<sigma>'))"
    for pre post r \<sigma>'
    using that by (simp add: eq exec_block_append)
  have 2: "invoke (Suc n) p cs q \<sigma> f a = Some (Inr (r, \<sigma>'))"
    if "body fd = pre @ Return rr # post"
      "exec_block n p (q # cs) f (\<sigma>(mangle f x \<mapsto> v)) pre = Some (Inr (Continue, \<sigma>1))"
      "exec_rhs n p (q # cs) f \<sigma>1 rr = Some (Inr (r, \<sigma>'))"
    for pre rr post \<sigma>1 r \<sigma>'
    using that by (simp add: eq exec_block_append)
  have 3: "invoke (Suc n) p cs q \<sigma> f a = Some (Inl MissingReturn)"
    if "exec_block n p (q # cs) f (\<sigma>(mangle f x \<mapsto> v)) (body fd) = Some (Inr (Continue, \<sigma>'))"
    for \<sigma>'
    using that by (simp add: eq)
  have 4: "\<sigma>' (mangle g y) = \<sigma> (mangle g y)"
    if "distinct (q # cs)" "invoke (Suc n) p cs q \<sigma> f a = Some (Inr (r, \<sigma>'))" "g \<in> set (q # cs)"
    for r \<sigma>' g y
    using frame(1) [OF that(2) that(1) that(3)] .
  show ?thesis
    apply (intro conjI allI impI)
        apply (rule eq)
       apply (blast intro: 1)
      apply (blast intro: 2)
     apply (blast intro: 3)
    apply (blast intro: 4)
    done
qed


text \<open>
  The call of line 17 of fixture 04, where the first return ends the body, and a function
  whose body has no return.
\<close>

theorem call_contract_witness:
  "''my_decrement'' \<notin> set (''main'' # []) \<and>
   map_of (funcs fixture04) ''my_decrement'' = Some fixture04_my_decrement \<and>
   params fixture04_my_decrement = [''x''] \<and>
   eval_int ''main''
     [mangle ''main'' ''initial_val'' \<mapsto> 10, mangle ''main'' ''final_result'' \<mapsto> 0]
     (Var ''initial_val'') = Inr 10 \<and>
   body fixture04_my_decrement =
     [Assign ''x'' (Pure (BinOp Sub (Var ''x'') (Lit 1)))] @ Return (Pure (Var ''x'')) # [] \<and>
   exec_block 0 fixture04 (''main'' # []) ''my_decrement''
     [mangle ''main'' ''initial_val'' \<mapsto> 10, mangle ''main'' ''final_result'' \<mapsto> 0,
      mangle ''my_decrement'' ''x'' \<mapsto> 10]
     [Assign ''x'' (Pure (BinOp Sub (Var ''x'') (Lit 1)))] =
   Some (Inr (Continue,
     [mangle ''main'' ''initial_val'' \<mapsto> 10, mangle ''main'' ''final_result'' \<mapsto> 0,
      mangle ''my_decrement'' ''x'' \<mapsto> 9])) \<and>
   exec_rhs 0 fixture04 (''main'' # []) ''my_decrement''
     [mangle ''main'' ''initial_val'' \<mapsto> 10, mangle ''main'' ''final_result'' \<mapsto> 0,
      mangle ''my_decrement'' ''x'' \<mapsto> 9]
     (Pure (Var ''x'')) =
   Some (Inr (9,
     [mangle ''main'' ''initial_val'' \<mapsto> 10, mangle ''main'' ''final_result'' \<mapsto> 0,
      mangle ''my_decrement'' ''x'' \<mapsto> 9])) \<and>
   invoke (Suc 0) fixture04 [] ''main''
     [mangle ''main'' ''initial_val'' \<mapsto> 10, mangle ''main'' ''final_result'' \<mapsto> 0]
     ''my_decrement'' (Var ''initial_val'') =
   Some (Inr (9,
     [mangle ''main'' ''initial_val'' \<mapsto> 10, mangle ''main'' ''final_result'' \<mapsto> 0,
      mangle ''my_decrement'' ''x'' \<mapsto> 9])) \<and>
   exec_block 0
     \<lparr>funcs = [(''f'', \<lparr>fname = ''f'', params = [''x''], body = [Decl ''t'' None]\<rparr>)],
      entry = \<lparr>fname = ''main'', params = [], body = [ExprStmt ''f'' (Lit 1)]\<rparr>\<rparr>
     (''main'' # []) ''f'' (Map.empty(mangle ''f'' ''x'' \<mapsto> 1)) [Decl ''t'' None] =
   Some (Inr (Continue, [mangle ''f'' ''x'' \<mapsto> 1, mangle ''f'' ''t'' \<mapsto> 0])) \<and>
   invoke (Suc 0)
     \<lparr>funcs = [(''f'', \<lparr>fname = ''f'', params = [''x''], body = [Decl ''t'' None]\<rparr>)],
      entry = \<lparr>fname = ''main'', params = [], body = [ExprStmt ''f'' (Lit 1)]\<rparr>\<rparr>
     [] ''main'' Map.empty ''f'' (Lit 1) =
   Some (Inl MissingReturn)"
proof -
  let ?\<sigma> = "[mangle ''main'' ''initial_val'' \<mapsto> (10::int32), mangle ''main'' ''final_result'' \<mapsto> 0]"
  have a: "''my_decrement'' \<notin> set (''main'' # [])" by simp
  have b: "map_of (funcs fixture04) ''my_decrement'' = Some fixture04_my_decrement"
    by (simp add: fixture04_def)
  have c: "params fixture04_my_decrement = [''x'']"
    by (simp add: fixture04_my_decrement_def)
  have d: "eval_int ''main'' ?\<sigma> (Var ''initial_val'') = Inr 10"
    by (simp add: engine_eval)
  have e: "body fixture04_my_decrement =
     [Assign ''x'' (Pure (BinOp Sub (Var ''x'') (Lit 1)))] @ Return (Pure (Var ''x'')) # []"
    by (simp add: fixture04_my_decrement_def)
  have f: "exec_block 0 fixture04 (''main'' # []) ''my_decrement''
      (?\<sigma>(mangle ''my_decrement'' ''x'' \<mapsto> 10))
      [Assign ''x'' (Pure (BinOp Sub (Var ''x'') (Lit 1)))] =
    Some (Inr (Continue, ?\<sigma>(mangle ''my_decrement'' ''x'' \<mapsto> 9)))"
    by (simp add: engine_eval)
  have g: "exec_rhs 0 fixture04 (''main'' # []) ''my_decrement''
      (?\<sigma>(mangle ''my_decrement'' ''x'' \<mapsto> 9)) (Pure (Var ''x'')) =
    Some (Inr (9, ?\<sigma>(mangle ''my_decrement'' ''x'' \<mapsto> 9)))"
    by (simp add: engine_eval)
  have first_return: "invoke (Suc 0) fixture04 [] ''main'' ?\<sigma> ''my_decrement'' (Var ''initial_val'') =
    Some (Inr (9, ?\<sigma>(mangle ''my_decrement'' ''x'' \<mapsto> 9)))"
    using call_contract [OF a b c d, of 0] e f g by blast
  let ?fd = "\<lparr>fname = ''f'', params = [''x''], body = [Decl ''t'' None]\<rparr>"
  let ?P = "\<lparr>funcs = [(''f'', ?fd)],
      entry = \<lparr>fname = ''main'', params = [], body = [ExprStmt ''f'' (Lit 1)]\<rparr>\<rparr>"
  have a': "''f'' \<notin> set (''main'' # [])" by simp
  have b': "map_of (funcs ?P) ''f'' = Some ?fd" by simp
  have c': "params ?fd = [''x'']" by simp
  have d': "eval_int ''main'' Map.empty (Lit 1) = Inr 1" by (simp add: engine_eval)
  have h: "exec_block 0 ?P (''main'' # []) ''f'' (Map.empty(mangle ''f'' ''x'' \<mapsto> 1)) (body ?fd) =
    Some (Inr (Continue, [mangle ''f'' ''x'' \<mapsto> 1, mangle ''f'' ''t'' \<mapsto> 0]))"
    by (simp add: engine_eval)
  have missing: "invoke (Suc 0) ?P [] ''main'' Map.empty ''f'' (Lit 1) = Some (Inl MissingReturn)"
    using call_contract [OF a' b' c' d', of 0] h by blast
  from h have h': "exec_block 0 ?P (''main'' # []) ''f'' (Map.empty(mangle ''f'' ''x'' \<mapsto> 1))
      [Decl ''t'' None] =
    Some (Inr (Continue, [mangle ''f'' ''x'' \<mapsto> 1, mangle ''f'' ''t'' \<mapsto> 0]))"
    by simp
  show ?thesis
    apply (intro conjI)
    apply (rule a, rule b, rule c, rule d, rule e, rule f, rule g, rule first_return, rule h', rule missing)
    done
qed

section \<open>The engine on the fixtures\<close>

text \<open>
  The engine, run on the parsed fixtures, ends in the symbol table that holds the final
  slots of the functions \<open>main03\<close>, \<open>main04\<close> and \<open>main05\<close>, whatever the slots held
  at the start.
\<close>

lemma fixture03_run: "run n fixture03 = Some (Inr (table03 (main03 s)))"
proof -
  have "run n fixture03 =
    Some (Inr [mangle ''main'' ''x'' \<mapsto> 10, mangle ''main'' ''y'' \<mapsto> 5, mangle ''main'' ''z'' \<mapsto> 10])"
    by (simp add: run_def fixture03_def fixture03_main_def engine_eval)
  moreover have "main03 s = \<lparr>main_x = 10, main_y = 5, main_z = 10\<rparr>"
    by (simp add: main03_def main03_init_def main03_first_if_def main03_second_if_def int_gt_def)
  ultimately show ?thesis by (simp add: table03_def)
qed

lemma fixture04_run: "run (Suc n) fixture04 = Some (Inr (table04 (main04 s)))"
proof -
  have "run (Suc n) fixture04 =
    Some (Inr [mangle ''my_decrement'' ''x'' \<mapsto> 3, mangle ''main'' ''initial_val'' \<mapsto> 10,
       mangle ''main'' ''final_result'' \<mapsto> 4])"
    by (simp add: run_def fixture04_def fixture04_main_def fixture04_my_decrement_def engine_eval)
      (auto simp: fun_upd_twist)
  moreover have "main04 s = \<lparr>my_decrement_x = 3, main_initial_val = 10, main_final_result = 4\<rparr>"
    by (simp add: main04_def main04_init_def main04_call_variable_def main04_call_literal_def
      main04_call_discarded_def my_decrement_eq)
  ultimately show ?thesis by (simp add: table04_def)
qed

text \<open>
  Under the engine, a call of \<open>process_number\<close> from any table returns what the function
  of section "Fixture 05" returns, and writes its three slots.
\<close>

lemma process_number_invoke:
  assumes "''process_number'' \<notin> set (q # cs)" and "eval_int q \<sigma> a = Inr v"
  shows "invoke (Suc n) fixture05 cs q \<sigma> ''process_number'' a =
    Some (Inr (fst (process_number v s),
      \<sigma>(mangle ''process_number'' ''num'' \<mapsto> v,
        mangle ''process_number'' ''threshold'' \<mapsto> 2,
        mangle ''process_number'' ''processed_val_in_func'' \<mapsto> fst (process_number v s))))"
proof -
  have m: "map_of (funcs fixture05) ''process_number'' = Some fixture05_process_number"
    by (simp add: fixture05_def)
  have p: "params fixture05_process_number = [''num'']"
    by (simp add: fixture05_process_number_def)
  show ?thesis
    by (simp add: invoke_Suc [OF assms(1) m p assms(2)] process_number_eq
        fixture05_process_number_def declare_slot_def write_slot_def read_slot_def eval_int_def
        eval_cond_def mangle_def split: option.splits)
qed

lemma fixture05_run:
  "run (Suc (Suc (Suc (Suc (Suc (Suc n)))))) fixture05 =
    map_option (\<lambda>t. Inr (table05 t)) (main05 s)"
proof -
  have "run (Suc (Suc (Suc (Suc (Suc (Suc n)))))) fixture05 =
    Some (Inr
     [mangle ''process_number'' ''num'' \<mapsto> 6,
      mangle ''process_number'' ''threshold'' \<mapsto> 2,
      mangle ''process_number'' ''processed_val_in_func'' \<mapsto> 5,
      mangle ''main'' ''loop_counter'' \<mapsto> 5,
      mangle ''main'' ''upper_limit'' \<mapsto> 5,
      mangle ''main'' ''lower_limit'' \<mapsto> 1,
      mangle ''main'' ''returned_from_func'' \<mapsto> 4])"
    by (simp add: run_def fixture05_def fixture05_main_def fixture05_process_number_def engine_eval)
      (auto simp: fun_upd_twist)
  moreover have "main05 s = Some \<lparr>process_number_num = 6, process_number_threshold = 2,
        process_number_processed_val_in_func = 5, main_loop_counter = 5,
        main_upper_limit = 5, main_lower_limit = 1, main_returned_from_func = 4\<rparr>"
  by (simp add: main05_def main05_if_def main05_while.simps main05_loop_cond_def main05_init_def
      main05_loop_body_eq int_gt_def)
  ultimately show ?thesis by (simp add: table05_def)
qed

text \<open>Five units of fuel are not enough: the fifth iteration has none left for its call.\<close>

lemma fixture05_run_short: "run 5 fixture05 = None"
  by (simp add: eval_nat_numeral run_def fixture05_def fixture05_main_def fixture05_process_number_def engine_eval)

end
